theory Spec2Isabelle
  imports Complex_Main
begin

section \<open>Interactive image components (components/interactive\_image.py)\<close>

text \<open>
  The module holds three widgets: the point overlay (\<open>InteractiveImageEditor\<close>), the
  ROI selector (\<open>ROISelector\<close>) and the manual point editor (\<open>ManualPointEditor\<close>).
  Each method is a function of its arguments and of what the framework's widgets hand
  back during the call (buttons, the chart's click record, the canvas result, the
  select box); those widget values are explicit arguments of the functions below.

  Python numbers are modelled as exact rationals: an \<open>int\<close> is a rational with
  denominator one, and a \<open>float\<close> is taken at its exact value with exact arithmetic
  (the rounding of IEEE-754 operations is not part of this development).
\<close>

subsection \<open>Data\<close>

type_synonym number = rat

text \<open>A detection dictionary: \<open>d['x']\<close> and \<open>d['y']\<close> are read with subscripts, the
  other keys with \<open>d.get(key, default)\<close>, so they may be absent.\<close>

record detection =
  d_x :: number
  d_y :: number
  d_conf :: "number option"
  d_manual :: "bool option"
  d_method :: "string option"

text \<open>The two attributes of a PIL image that the module reads.\<close>

record image =
  img_width :: nat
  img_height :: nat

datatype py_error = ZeroDivisionError | AttributeError | IndexError | ValueError

subsection \<open>Point overlay: \<open>InteractiveImageEditor.display_image_with_points\<close>\<close>

text \<open>\<open>sub in s\<close> on Python strings: \<open>sub\<close> occurs as a contiguous slice of \<open>s\<close>.\<close>

fun str_contains :: "string \<Rightarrow> string \<Rightarrow> bool" where
  "str_contains sub [] = (sub = [])"
| "str_contains sub (c # cs) = (take (length sub) (c # cs) = sub \<or> str_contains sub cs)"

text \<open>\<open>d.get(key, default)\<close>.\<close>

definition dict_get :: "'a option \<Rightarrow> 'a \<Rightarrow> 'a" where
  "dict_get v dflt = (case v of None \<Rightarrow> dflt | Some a \<Rightarrow> a)"

text \<open>The body of the colour loop (lines 64 to 71): one \<open>if/elif/else\<close> chain.\<close>

definition marker_color :: "detection \<Rightarrow> string" where
  "marker_color d =
     (if dict_get (d_manual d) False then ''green''
      else if str_contains ''grid'' (dict_get (d_method d) '''') then ''red''
      else if str_contains ''roi'' (dict_get (d_method d) '''') then ''blue''
      else ''red'')"

text \<open>The loop \<open>for d in detections: colors.append(...)\<close>, with the list built so far.\<close>

fun colors_loop :: "detection list \<Rightarrow> string list \<Rightarrow> string list" where
  "colors_loop [] colors = colors"
| "colors_loop (d # ds) colors = colors_loop ds (colors @ [marker_color d])"

definition x_coords :: "detection list \<Rightarrow> number list" where
  "x_coords detections = map d_x detections"

definition y_coords :: "image \<Rightarrow> detection list \<Rightarrow> number list" where
  "y_coords im detections = map (\<lambda>d. of_nat (img_height im) - d_y d) detections"

definition confidences :: "detection list \<Rightarrow> number list" where
  "confidences detections = map (\<lambda>d. dict_get (d_conf d) 1) detections"

text \<open>The scatter trace added to the figure when the detection list is not empty
  (the hover text, a formatted float, is left out).\<close>

record scatter =
  sc_x :: "number list"
  sc_y :: "number list"
  sc_size :: "number list"
  sc_color :: "string list"
  sc_customdata :: "number list"

definition detections_trace :: "image \<Rightarrow> detection list \<Rightarrow> scatter option" where
  "detections_trace im detections =
     (if detections \<noteq> [] then
        Some \<lparr> sc_x = x_coords detections,
               sc_y = y_coords im detections,
               sc_size = map (\<lambda>c. 4 + c * 6) (confidences detections),
               sc_color = colors_loop detections [],
               sc_customdata = map d_y detections \<rparr>
      else None)"

text \<open>
  What \<open>st.plotly_chart\<close> hands back, as far as the method inspects it: a falsy value,
  a truthy object without the attribute \<open>last_clicked\<close>, or a truthy object whose
  \<open>last_clicked\<close> is \<open>None\<close> or a dictionary (an association list; the empty
  dictionary is falsy).
\<close>

datatype chart_return =
    Falsy
  | NoLastClicked
  | LastClicked "(string \<times> number) list option"

record overlay_result =
  r_clicked_point :: "(number \<times> number) option"
  r_action :: "string option"
  r_roi :: "(int \<times> int \<times> int \<times> int) option"

text \<open>Lines 106 to 133. The three buttons' values are \<open>add_mode\<close>, \<open>remove_mode\<close>
  and \<open>roi_mode\<close>.\<close>

definition click_result ::
  "image \<Rightarrow> bool \<Rightarrow> chart_return \<Rightarrow> bool \<Rightarrow> bool \<Rightarrow> bool \<Rightarrow> overlay_result" where
  "click_result im enable_editing clicked_data add_mode remove_mode roi_mode =
     (let result = \<lparr> r_clicked_point = None, r_action = None, r_roi = None \<rparr> in
      if enable_editing then
        (case clicked_data of
           LastClicked (Some click_data) \<Rightarrow>
             if click_data \<noteq> [] then
               (let x = dict_get (map_of click_data ''x'') 0;
                    y = of_nat (img_height im) - dict_get (map_of click_data ''y'') 0
                in if add_mode then
                     result \<lparr> r_clicked_point := Some (x, y), r_action := Some ''add'' \<rparr>
                   else if remove_mode then
                     result \<lparr> r_clicked_point := Some (x, y), r_action := Some ''remove'' \<rparr>
                   else result)
             else result
         | _ \<Rightarrow> result)
      else result)"

definition display_image_with_points ::
  "image \<Rightarrow> detection list \<Rightarrow> bool \<Rightarrow> chart_return \<Rightarrow> bool \<Rightarrow> bool \<Rightarrow> bool
     \<Rightarrow> scatter option \<times> overlay_result" where
  "display_image_with_points im detections enable_editing clicked_data add_mode remove_mode roi_mode =
     (detections_trace im detections,
      click_result im enable_editing clicked_data add_mode remove_mode roi_mode)"


subsection \<open>ROI selector: \<open>ROISelector.draw_roi_selector\<close>\<close>

text \<open>\<open>int(q)\<close> on a number: truncation toward zero.\<close>

definition py_int :: "number \<Rightarrow> int" where
  "py_int q = (if 0 \<le> q then \<lfloor>q\<rfloor> else \<lceil>q\<rceil>)"

text \<open>True division \<open>a / b\<close>, which raises on a zero divisor.\<close>

definition true_div :: "number \<Rightarrow> number \<Rightarrow> py_error + number" where
  "true_div a b = (if b = 0 then Inl ZeroDivisionError else Inr (a / b))"



text \<open>Line 159, the \<open>width\<close> argument of the canvas.\<close>

definition canvas_width :: "image \<Rightarrow> int \<Rightarrow> py_error + number" where
  "canvas_width im height =
     (if int (img_height im) > height then
        (case true_div (of_int height) (of_nat (img_height im)) of
           Inl e \<Rightarrow> Inl e
         | Inr r \<Rightarrow> Inr (of_nat (img_width im) * r))
      else Inr (of_nat (img_width im)))"





subsection \<open>Manual point editor: \<open>ManualPointEditor.edit_points_interface\<close>\<close>

text \<open>\<open>str(n)\<close> and the \<open>{...}\<close> fields of an f-string on integers: decimal digits,
  with a minus sign for a negative value.\<close>

definition digit_char :: "nat \<Rightarrow> char" where
  "digit_char n = char_of (48 + n)"

fun str_nat :: "nat \<Rightarrow> string" where
  "str_nat n = (if n < 10 then [digit_char n] else str_nat (n div 10) @ [digit_char (n mod 10)])"

definition str_int :: "int \<Rightarrow> string" where
  "str_int i = (if i < 0 then CHR ''-'' # str_nat (nat (- i)) else str_nat (nat i))"

text \<open>Line 222: the label of detection \<open>d\<close> at position \<open>i\<close> of \<open>enumerate(detections)\<close>.\<close>

definition format_label :: "nat \<Rightarrow> detection \<Rightarrow> string" where
  "format_label i d =
     ''Point '' @ str_int (int i + 1) @ '': ('' @ str_int (py_int (d_x d)) @ '', ''
       @ str_int (py_int (d_y d)) @ '')''"

definition point_options :: "detection list \<Rightarrow> string list" where
  "point_options detections = map (\<lambda>(i, d). format_label i d) (enumerate 0 detections)"

text \<open>\<open>s.split(sep)\<close> for a one-character separator; \<open>cur\<close> is the piece read so far.\<close>

fun split_sep :: "char \<Rightarrow> string \<Rightarrow> string \<Rightarrow> string list" where
  "split_sep sep cur [] = [cur]"
| "split_sep sep cur (c # cs) =
     (if c = sep then cur # split_sep sep [] cs else split_sep sep (cur @ [c]) cs)"

text \<open>The ASCII whitespace characters of \<open>str.split()\<close> and \<open>str.strip()\<close>.\<close>

definition is_space :: "char \<Rightarrow> bool" where
  "is_space c = ((of_char c :: nat) \<in> {9, 10, 11, 12, 13, 28, 29, 30, 31, 32})"

text \<open>\<open>s.split()\<close>: the maximal runs of non-whitespace characters.\<close>

fun split_ws :: "string \<Rightarrow> string \<Rightarrow> string list" where
  "split_ws cur [] = (if cur = [] then [] else [cur])"
| "split_ws cur (c # cs) =
     (if is_space c then (if cur = [] then split_ws [] cs else cur # split_ws [] cs)
      else split_ws (cur @ [c]) cs)"

text \<open>\<open>xs[n]\<close> for a non-negative constant index.\<close>

definition py_nth :: "'a list \<Rightarrow> nat \<Rightarrow> py_error + 'a" where
  "py_nth xs n = (if n < length xs then Inr (xs ! n) else Inl IndexError)"

text \<open>
  \<open>int(s)\<close> on a string, base ten: surrounding whitespace is stripped, one sign is
  allowed, then come ASCII digits, where single underscores may separate digits.
  Anything else raises ValueError.
\<close>

definition is_digit :: "char \<Rightarrow> bool" where
  "is_digit c = (48 \<le> (of_char c :: nat) \<and> (of_char c :: nat) \<le> 57)"

definition digit_val :: "char \<Rightarrow> nat" where
  "digit_val c = of_char c - 48"

definition strip :: "string \<Rightarrow> string" where
  "strip s = rev (dropWhile is_space (rev (dropWhile is_space s)))"

fun digits_acc :: "nat \<Rightarrow> string \<Rightarrow> nat option" where
  "digits_acc acc [] = Some acc"
| "digits_acc acc (c # cs) =
     (if is_digit c then digits_acc (acc * 10 + digit_val c) cs
      else if c = CHR ''_'' \<and> cs \<noteq> [] \<and> is_digit (hd cs) then digits_acc acc cs
      else None)"

definition parse_digits :: "string \<Rightarrow> py_error + nat" where
  "parse_digits s =
     (case s of
        [] \<Rightarrow> Inl ValueError
      | c # cs \<Rightarrow>
          if is_digit c then
            (case digits_acc 0 s of None \<Rightarrow> Inl ValueError | Some n \<Rightarrow> Inr n)
          else Inl ValueError)"

definition int_of_str :: "string \<Rightarrow> py_error + int" where
  "int_of_str s =
     (case strip s of
        [] \<Rightarrow> Inl ValueError
      | c # cs \<Rightarrow>
          if c = CHR ''-'' then
            (case parse_digits cs of Inl e \<Rightarrow> Inl e | Inr n \<Rightarrow> Inr (- int n))
          else if c = CHR ''+'' then
            (case parse_digits cs of Inl e \<Rightarrow> Inl e | Inr n \<Rightarrow> Inr (int n))
          else
            (case parse_digits (c # cs) of Inl e \<Rightarrow> Inl e | Inr n \<Rightarrow> Inr (int n)))"

text \<open>Line 227: \<open>int(selected_point.split(":")[0].split()[1]) - 1\<close>.\<close>

definition parse_index :: "string \<Rightarrow> py_error + int" where
  "parse_index selected_point =
     (case py_nth (split_sep CHR '':'' [] selected_point) 0 of
        Inl e \<Rightarrow> Inl e
      | Inr head \<Rightarrow>
          (case py_nth (split_ws [] head) 1 of
             Inl e \<Rightarrow> Inl e
           | Inr tok \<Rightarrow>
               (case int_of_str tok of
                  Inl e \<Rightarrow> Inl e
                | Inr n \<Rightarrow> Inr (n - 1))))"

record editor_result =
  e_action :: "string option"
  e_point :: "(int \<times> int) option"
  e_index :: "int option"

text \<open>
  The method, lines 203 to 233. The widget values are arguments: \<open>add_x\<close> and \<open>add_y\<close>
  from the two number inputs (which the widgets keep within the image size),
  \<open>add_btn\<close> and \<open>remove_btn\<close> from the two buttons, and \<open>selected_point\<close> from the
  select box (\<open>None\<close> or one label).
\<close>

definition edit_points_interface ::
  "detection list \<Rightarrow> nat \<times> nat \<Rightarrow> int \<Rightarrow> int \<Rightarrow> bool \<Rightarrow> string option \<Rightarrow> bool
     \<Rightarrow> py_error + editor_result" where
  "edit_points_interface detections image_size add_x add_y add_btn selected_point remove_btn =
     (let result = \<lparr> e_action = None, e_point = None, e_index = None \<rparr>;
          result = (if add_btn
                    then result \<lparr> e_action := Some ''add'', e_point := Some (add_x, add_y) \<rparr>
                    else result)
      in if detections \<noteq> [] then
           (case selected_point of
              None \<Rightarrow> Inr result
            | Some label \<Rightarrow>
                if remove_btn \<and> label \<noteq> [] then
                  (case parse_index label of
                     Inl e \<Rightarrow> Inl e
                   | Inr point_index \<Rightarrow>
                       Inr (result \<lparr> e_action := Some ''remove'', e_index := Some point_index \<rparr>))
                else Inr result)
         else Inr result)"

declare str_nat.simps [simp del]

section \<open>Properties\<close>

subsection \<open>Point overlay\<close>

lemma colors_loop_map: "colors_loop ds acc = acc @ map marker_color ds"
  by (induction ds arbitrary: acc) simp_all



text \<open>
  C4. The colour list has one entry per detection, chosen by the precedence
  manual flag (green), then \<open>'grid'\<close> in the method (red), then \<open>'roi'\<close> in the method
  (blue), then the default (red). A manual detection whose method is \<open>"grid"\<close> is green,
  where the same detection without the manual flag is red.
\<close>

theorem marker_color_precedence:
  "length (colors_loop detections []) = length detections \<and>
   (\<forall>i < length detections.
      colors_loop detections [] ! i =
        (if dict_get (d_manual (detections ! i)) False then ''green''
         else if str_contains ''grid'' (dict_get (d_method (detections ! i)) '''') then ''red''
         else if str_contains ''roi'' (dict_get (d_method (detections ! i)) '''') then ''blue''
         else ''red'')) \<and>
   marker_color (d \<lparr> d_manual := Some True, d_method := Some ''grid'' \<rparr>) = ''green'' \<and>
   marker_color (d \<lparr> d_manual := Some False, d_method := Some ''grid'' \<rparr>) = ''red''"
  by (simp add: colors_loop_map marker_color_def dict_get_def)

theorem marker_color_precedence_witness:
  "colors_loop
     [\<lparr> d_x = 1, d_y = 2, d_conf = None, d_manual = Some True, d_method = Some ''grid'' \<rparr>,
      \<lparr> d_x = 3, d_y = 4, d_conf = None, d_manual = None, d_method = Some ''yolo_roi'' \<rparr>] [] ! 1
   = ''blue''"
  using marker_color_precedence
    [of "[\<lparr> d_x = 1, d_y = 2, d_conf = None, d_manual = Some True, d_method = Some ''grid'' \<rparr>,
          \<lparr> d_x = 3, d_y = 4, d_conf = None, d_manual = None, d_method = Some ''yolo_roi'' \<rparr>]",
     THEN conjunct2, THEN conjunct1, rule_format, of 1]
  by (simp add: dict_get_def)



text \<open>
  C10. With a registered click and both the add and the remove button active, the
  result is the clicked point tagged \<open>"add"\<close>: the add branch is tested first.
\<close>

theorem add_before_remove:
  assumes "click_data \<noteq> []"
  shows "snd (display_image_with_points im detections True (LastClicked (Some click_data))
                True True roi_mode)
         = \<lparr> r_clicked_point = Some (dict_get (map_of click_data ''x'') 0,
                                     of_nat (img_height im) - dict_get (map_of click_data ''y'') 0),
             r_action = Some ''add'', r_roi = None \<rparr>"
  using assms by (simp add: display_image_with_points_def click_result_def Let_def)

theorem add_before_remove_witness:
  "snd (display_image_with_points \<lparr> img_width = 800, img_height = 600 \<rparr> [] True
          (LastClicked (Some [(''x'', 100), (''y'', 100)])) True True False)
   = \<lparr> r_clicked_point = Some (100, 500), r_action = Some ''add'', r_roi = None \<rparr>"
  using add_before_remove [of "[(''x'', 100), (''y'', 100)]"
                              "\<lparr> img_width = 800, img_height = 600 \<rparr>" "[]" False]
  by (simp add: dict_get_def)

subsection \<open>ROI selector\<close>


text \<open>The one call on which line 159 raises: an image of height zero with a negative
  display height.\<close>

lemma canvas_width_raises:
  "canvas_width im height = Inl e \<longleftrightarrow>
     img_height im = 0 \<and> height < 0 \<and> e = ZeroDivisionError"
  by (auto simp: canvas_width_def true_div_def)














subsection \<open>Manual point editor\<close>

lemma digit_char_props:
  assumes "n < 10"
  shows "is_digit (digit_char n)" and "digit_val (digit_char n) = n"
    and "\<not> is_space (digit_char n)" and "digit_char n \<noteq> CHR '':''"
    and "digit_char n \<noteq> CHR ''-''" and "digit_char n \<noteq> CHR ''+''"
proof -
  have oc: "(of_char (digit_char n) :: nat) = 48 + n"
    using assms by (simp add: digit_char_def)
  show "is_digit (digit_char n)" using assms by (simp add: is_digit_def oc)
  show "digit_val (digit_char n) = n" by (simp add: digit_val_def oc)
  show "\<not> is_space (digit_char n)" by (simp add: is_space_def oc)
  have "(of_char (digit_char n) :: nat) \<noteq> of_char CHR '':''" using assms by (simp add: oc)
  then show "digit_char n \<noteq> CHR '':''" by auto
  have "(of_char (digit_char n) :: nat) \<noteq> of_char CHR ''-''" by (simp add: oc)
  then show "digit_char n \<noteq> CHR ''-''" by auto
  have "(of_char (digit_char n) :: nat) \<noteq> of_char CHR ''+''" by (simp add: oc)
  then show "digit_char n \<noteq> CHR ''+''" by auto
qed

lemma str_nat_digits: "c \<in> set (str_nat n) \<Longrightarrow> \<exists>k<10. c = digit_char k"
proof (induction n rule: str_nat.induct)
  case (1 n)
  show ?case
  proof (cases "n < 10")
    case True
    with "1.prems" show ?thesis by (auto simp: str_nat.simps [of n])
  next
    case False
    with "1.prems" have "c \<in> set (str_nat (n div 10)) \<or> c = digit_char (n mod 10)"
      by (auto simp: str_nat.simps [of n])
    then show ?thesis
    proof
      assume "c \<in> set (str_nat (n div 10))"
      with "1.IH" False show ?thesis by simp
    next
      assume "c = digit_char (n mod 10)"
      moreover have "n mod 10 < 10" by simp
      ultimately show ?thesis by blast
    qed
  qed
qed

lemma str_nat_nonempty: "str_nat n \<noteq> []"
  by (subst str_nat.simps) simp

lemma digits_acc_fold:
  "\<forall>c \<in> set ds. is_digit c \<Longrightarrow>
     digits_acc acc ds = Some (fold (\<lambda>c a. a * 10 + digit_val c) ds acc)"
  by (induction ds arbitrary: acc) simp_all

lemma fold_str_nat: "fold (\<lambda>c a. a * 10 + digit_val c) (str_nat n) 0 = n"
proof (induction n rule: str_nat.induct)
  case (1 n)
  show ?case
  proof (cases "n < 10")
    case True
    then show ?thesis by (simp add: str_nat.simps [of n] digit_char_props)
  next
    case False
    have "n mod 10 < 10" by simp
    with False "1.IH" show ?thesis
      by (simp add: str_nat.simps [of n] digit_char_props)
  qed
qed

lemma str_nat_all_digits: "\<forall>c \<in> set (str_nat n). is_digit c"
  using str_nat_digits digit_char_props(1) by blast

lemma parse_digits_str_nat: "parse_digits (str_nat n) = Inr n"
proof -
  obtain c cs where s: "str_nat n = c # cs"
    using str_nat_nonempty [of n] by (cases "str_nat n") auto
  have "is_digit c" using str_nat_all_digits [of n] s by simp
  moreover have "digits_acc 0 (str_nat n) = Some n"
    by (simp add: digits_acc_fold str_nat_all_digits fold_str_nat)
  ultimately show ?thesis by (simp add: parse_digits_def s [symmetric]) (simp add: s)
qed

lemma strip_no_space: "\<forall>c \<in> set s. \<not> is_space c \<Longrightarrow> strip s = s"
proof -
  assume a: "\<forall>c \<in> set s. \<not> is_space c"
  then have "dropWhile is_space s = s" by (cases s) simp_all
  moreover from a have "dropWhile is_space (rev s) = rev s" by (cases "rev s") (simp, metis dropWhile_eq_self_iff hd_in_set list.distinct(1) set_rev)
  ultimately show ?thesis by (simp add: strip_def)
qed

lemma int_of_str_str_nat: "int_of_str (str_nat n) = Inr (int n)"
proof -
  obtain c cs where s: "str_nat n = c # cs"
    using str_nat_nonempty [of n] by (cases "str_nat n") auto
  obtain k where k: "k < 10" "c = digit_char k"
    using str_nat_digits [of c n] s by auto
  have ns: "\<forall>c \<in> set (str_nat n). \<not> is_space c"
    using str_nat_digits digit_char_props(3) by blast
  have "strip (str_nat n) = c # cs" using strip_no_space [OF ns] s by simp
  moreover have "c \<noteq> CHR ''-''" "c \<noteq> CHR ''+''" using k digit_char_props by auto
  moreover have "parse_digits (c # cs) = Inr n" using parse_digits_str_nat [of n] s by simp
  ultimately show ?thesis by (simp add: int_of_str_def)
qed

lemma split_sep_first:
  "sep \<notin> set p \<Longrightarrow> split_sep sep cur (p @ sep # rest) = (cur @ p) # split_sep sep [] rest"
  by (induction p arbitrary: cur) auto

lemma split_ws_no_space:
  "\<forall>c \<in> set p. \<not> is_space c \<Longrightarrow> split_ws cur p = (if cur @ p = [] then [] else [cur @ p])"
  by (induction p arbitrary: cur) auto

lemma parse_index_label: "parse_index (format_label i d) = Inr (int i)"
proof -
  let ?ds = "str_nat (Suc i)"
  let ?rest = "'' ('' @ str_int (py_int (d_x d)) @ '', '' @ str_int (py_int (d_y d)) @ '')''"
  have si: "str_int (int i + 1) = ?ds"
    by (simp add: str_int_def nat_add_distrib)
  have lab: "format_label i d = (''Point '' @ ?ds) @ CHR '':'' # ?rest"
    by (simp add: format_label_def si)
  have "CHR '':'' \<notin> set ?ds"
  proof
    assume "CHR '':'' \<in> set ?ds"
    then obtain k where "k < 10" and "CHR '':'' = digit_char k"
      using str_nat_digits by blast
    with digit_char_props(4) [of k] show False by simp
  qed
  then have nocolon: "CHR '':'' \<notin> set (''Point '' @ ?ds)"
    by simp
  have hd: "py_nth (split_sep CHR '':'' [] (format_label i d)) 0 = Inr (''Point '' @ ?ds)"
    unfolding lab split_sep_first [OF nocolon] by (simp add: py_nth_def)
  have ns: "\<forall>c \<in> set ?ds. \<not> is_space c"
    using str_nat_digits digit_char_props(3) by blast
  have "split_ws [] (''Point '' @ ?ds) = ''Point'' # split_ws [] ?ds"
    by (simp add: is_space_def)
  also have "\<dots> = [''Point'', ?ds]"
    using split_ws_no_space [OF ns, of "[]"] str_nat_nonempty by simp
  finally have tok: "py_nth (split_ws [] (''Point '' @ ?ds)) 1 = Inr ?ds"
    by (simp add: py_nth_def)
  have "parse_index (format_label i d) = Inr (int (Suc i) - 1)"
    by (simp only: parse_index_def hd tok int_of_str_str_nat sum.case)
  then show ?thesis by simp
qed

lemma point_options_nth:
  "i < length detections \<Longrightarrow> point_options detections ! i = format_label i (detections ! i)"
  by (simp add: point_options_def nth_enumerate_eq)

text \<open>
  C3. For every position \<open>i\<close> of the detection list, parsing the label generated for
  it (split on the colon, first piece, split on whitespace, second token, \<open>int\<close>,
  minus one) gives back \<open>i\<close>, whatever the coordinates; and the editor, with that
  label selected and the remove button pressed, returns action \<open>"remove"\<close> with
  index \<open>i\<close>.
\<close>

theorem label_round_trip:
  assumes "i < length detections"
  shows "parse_index (point_options detections ! i) = Inr (int i)
         \<and> edit_points_interface detections image_size add_x add_y False
              (Some (point_options detections ! i)) True
            = Inr \<lparr> e_action = Some ''remove'', e_point = None, e_index = Some (int i) \<rparr>"
proof -
  have p: "parse_index (point_options detections ! i) = Inr (int i)"
    using assms by (simp add: point_options_nth parse_index_label)
  have "point_options detections ! i \<noteq> []"
    using assms by (simp add: point_options_nth format_label_def)
  moreover have "detections \<noteq> []" using assms by auto
  ultimately show ?thesis
    using p by (simp add: edit_points_interface_def Let_def)
qed

theorem label_round_trip_witness:
  "parse_index ''Point 2: (3, -4)'' = Inr 1"
proof -
  have h: "1 < length [\<lparr> d_x = 1001/10, d_y = 5/2, d_conf = None, d_manual = None, d_method = None \<rparr>,
                      \<lparr> d_x = 7/2, d_y = - (9/2), d_conf = None, d_manual = None, d_method = None \<rparr>]"
    by simp
  have po: "point_options [\<lparr> d_x = 1001/10, d_y = 5/2, d_conf = None, d_manual = None, d_method = None \<rparr>,
                          \<lparr> d_x = 7/2, d_y = - (9/2), d_conf = None, d_manual = None, d_method = None \<rparr>] ! 1
            = ''Point 2: (3, -4)''"
    by code_simp
  from label_round_trip [OF h] show ?thesis
    unfolding po by simp
qed

text \<open>
  C7, as amended. With an empty detection list the call returns normally, the index
  is \<open>None\<close> and the action is never \<open>"remove"\<close>: the result is exactly what the add
  flow made of it, action \<open>"add"\<close> with the entered point when the add button was
  pressed and all fields \<open>None\<close> otherwise.
\<close>

theorem empty_list_remove_inert:
  "edit_points_interface [] image_size add_x add_y add_btn selected_point remove_btn
     = Inr \<lparr> e_action = (if add_btn then Some ''add'' else None),
             e_point = (if add_btn then Some (add_x, add_y) else None),
             e_index = None \<rparr>"
  by (simp add: edit_points_interface_def Let_def)

text \<open>
  The claim C7 as stated, action \<open>None\<close> on every call with an empty list, fails when
  the add button is pressed in the same call.
\<close>

theorem empty_list_add_counterexample:
  "edit_points_interface [] (800, 600) 5 7 True None True
     = Inr \<lparr> e_action = Some ''add'', e_point = Some (5, 7), e_index = None \<rparr>"
  by (simp add: edit_points_interface_def Let_def)

end
